theory Spec2Isabelle
  imports Main
begin

unbundle bit_operations_syntax

section \<open>The terminal widget of spyder-terminal (widgets/terminalgui.py)\<close>

text \<open>
  The module drives a web view that hosts an xterm page. Everything it does is an effect
  on Qt objects: a script handed to the page, a signal emitted to the host, a single-shot
  timer, a page action. The model threads a state record through every method; the record
  holds the two attributes the methods read and write (\<open>font\<close>, \<open>initial_path\<close>), the
  ordered trace of effects, and the single-shot timers that have not fired yet.
\<close>

subsection \<open>Python values and \<open>str.format\<close>\<close>

text \<open>
  The values that reach the module from its callers: \<open>None\<close>, booleans, integers and
  strings. (Floats are left out.)
\<close>

datatype pyval = PyNone | PyBool bool | PyInt int | PyStr string

text \<open>Truth value testing, as \<open>if x\<close> and \<open>not x\<close> do it.\<close>

fun truthy :: "pyval \<Rightarrow> bool" where
  "truthy PyNone = False"
| "truthy (PyBool b) = b"
| "truthy (PyInt i) = (i \<noteq> 0)"
| "truthy (PyStr s) = (s \<noteq> [])"

text \<open>
  Equality of keys in a dictionary lookup: \<open>True == 1\<close> and \<open>False == 0\<close> (with equal
  hashes), every other pair of different types is unequal.
\<close>

fun py_eq :: "pyval \<Rightarrow> pyval \<Rightarrow> bool" where
  "py_eq PyNone PyNone = True"
| "py_eq (PyBool a) (PyBool b) = (a = b)"
| "py_eq (PyInt a) (PyInt b) = (a = b)"
| "py_eq (PyBool a) (PyInt b) = ((if a then 1 else 0) = b)"
| "py_eq (PyInt a) (PyBool b) = (a = (if b then 1 else 0))"
| "py_eq (PyStr a) (PyStr b) = (a = b)"
| "py_eq _ _ = False"

text \<open>Decimal digits of a natural number, most significant first.\<close>

fun nat_digits :: "nat \<Rightarrow> string" where
  "nat_digits n =
     (if n < 10 then [''0123456789'' ! n]
      else nat_digits (n div 10) @ [''0123456789'' ! (n mod 10)])"

declare nat_digits.simps [simp del]

definition str_int :: "int \<Rightarrow> string" where
  "str_int i = (if i < 0 then ''-'' @ nat_digits (nat (- i)) else nat_digits (nat i))"

text \<open>
  What a replacement field \<open>{}\<close> or \<open>{0}\<close> of \<open>str.format\<close> inserts for a value: its
  \<open>str()\<close>. A call such as \<open>'setcwd("{0}")'.format(path)\<close> is written below as the
  concatenation of the template's literal parts with \<open>py_str path\<close>.
\<close>

fun py_str :: "pyval \<Rightarrow> string" where
  "py_str PyNone = ''None''"
| "py_str (PyBool b) = (if b then ''True'' else ''False'')"
| "py_str (PyInt i) = str_int i"
| "py_str (PyStr s) = s"

datatype error = KeyError pyval

text \<open>
  Subscription \<open>d[k]\<close> of a dictionary literal, the literal given as its list of items:
  the value of the first item whose key equals \<open>k\<close>, \<open>KeyError\<close> when there is none.
\<close>

fun dict_getitem :: "(pyval \<times> 'v) list \<Rightarrow> pyval \<Rightarrow> error + 'v" where
  "dict_getitem [] k = Inl (KeyError k)"
| "dict_getitem ((k', v) # kvs) k = (if py_eq k' k then Inr v else dict_getitem kvs k)"

subsection \<open>Effects, state and environment\<close>

datatype signal = terminal_ready | terminal_closed

datatype page_action = Copy | Paste

datatype callback = alive_loopback_cb

text \<open>
  One entry of the trace per call into Qt that the host or the page can observe:
  \<^item> \<open>RegisterObject name\<close>: \<open>channel.registerObject(name, handler)\<close>;
  \<^item> \<open>Load url\<close>: \<open>self.load(QUrl(url))\<close>;
  \<^item> \<open>RunJavaScript script\<close>: \<open>document.runJavaScript(script, self.return_js_value)\<close>;
  \<^item> \<open>EvaluateJavaScript script\<close>: \<open>document.evaluateJavaScript(script)\<close>;
  \<^item> \<open>Emit sig\<close>: \<open>sig.emit()\<close> of one of the widget's two signals;
  \<^item> \<open>SingleShot ms cb\<close>: \<open>QTimer.singleShot(ms, cb)\<close>;
  \<^item> \<open>TriggerPageAction a\<close>: \<open>self.triggerPageAction(a)\<close>;
  \<^item> \<open>Print text\<close>: \<open>print(text, end='')\<close>.
\<close>

datatype effect =
    RegisterObject string
  | Load string
  | RunJavaScript string
  | EvaluateJavaScript string
  | Emit signal
  | SingleShot nat callback
  | TriggerPageAction page_action
  | Print string

datatype event_type = ShortcutOverride | OtherEvent

text \<open>A \<open>QEvent\<close>: its type, key code, modifier bits and accepted flag.\<close>

record qevent =
  etype :: event_type
  key :: int
  modifiers :: int
  accepted :: bool

record term_state =
  font :: pyval
  initial_path :: pyval
  trace :: "effect list"
  pending :: "(nat \<times> callback) list"
  clock :: nat

text \<open>
  What the module takes from outside itself:
  \<^item> \<open>WEBENGINE\<close>: the flag imported from qtpy;
  \<^item> \<open>page_eval k script\<close>: the value the page computes for \<open>script\<close> when it is the
    evaluation number \<open>k\<close> (counted from 0) of the session;
  \<^item> \<open>conf_options\<close>, \<open>get_option\<close>: \<open>parent.CONF.options(CONF_SECTION)\<close> and
    \<open>parent.get_option\<close>;
  \<^item> \<open>key_text\<close>: \<open>QKeySequence(key).toString(QKeySequence.PortableText)\<close>;
  \<^item> \<open>WebView_event\<close>: the base class's \<open>WebView.event\<close>, giving the returned flag,
    the event and the state after it;
  \<^item> the Qt constants \<open>Qt.ShiftModifier\<close>, ... and \<open>Qt.SHIFT\<close>, ...
\<close>

record qt_env =
  WEBENGINE :: bool
  page_eval :: "nat \<Rightarrow> string \<Rightarrow> pyval"
  conf_options :: "string list"
  get_option :: "string \<Rightarrow> pyval"
  key_text :: "int \<Rightarrow> string"
  WebView_event :: "qevent \<Rightarrow> term_state \<Rightarrow> bool \<times> qevent \<times> term_state"
  ShiftModifier :: int
  ControlModifier :: int
  AltModifier :: int
  MetaModifier :: int
  SHIFT :: int
  CTRL :: int
  ALT :: int
  META :: int

definition PREFIX :: string where
  "PREFIX = ''spyder_terminal.default.''"

definition log :: "effect \<Rightarrow> term_state \<Rightarrow> term_state" where
  "log e s = s\<lparr>trace := trace s @ [e]\<rparr>"

fun is_js :: "effect \<Rightarrow> bool" where
  "is_js (RunJavaScript _) = True"
| "is_js (EvaluateJavaScript _) = True"
| "is_js _ = False"

text \<open>The number of scripts the page has been given so far.\<close>

definition js_count :: "term_state \<Rightarrow> nat" where
  "js_count s = length (filter is_js (trace s))"

text \<open>
  \<open>QWebFrame.evaluateJavaScript\<close>: the page runs the script at once and the call returns
  the script's value.
\<close>

definition evaluateJavaScript :: "qt_env \<Rightarrow> string \<Rightarrow> term_state \<Rightarrow> pyval \<times> term_state" where
  "evaluateJavaScript env script s =
     (page_eval env (js_count s) script, log (EvaluateJavaScript script) s)"

text \<open>
  \<open>QWebEnginePage.runJavaScript\<close>: the script is queued with a completion callback; the
  call itself returns nothing.
\<close>

definition runJavaScript :: "string \<Rightarrow> term_state \<Rightarrow> pyval \<times> term_state" where
  "runJavaScript script s = (PyNone, log (RunJavaScript script) s)"

subsection \<open>\<open>TermView\<close>\<close>

text \<open>
  \<open>TermView.eval_javascript\<close>. Neither branch has a \<open>return\<close>: the value of the call into
  the document is dropped and the method returns \<open>None\<close>.
\<close>

definition TermView_eval_javascript :: "qt_env \<Rightarrow> string \<Rightarrow> term_state \<Rightarrow> pyval \<times> term_state" where
  "TermView_eval_javascript env script s =
     (let script = PREFIX @ script in
      if WEBENGINE env
      then (let (_, s') = runJavaScript script s in (PyNone, s'))
      else (let (_, s') = evaluateJavaScript env script s in (PyNone, s')))"

text \<open>\<open>TermView.__init__\<close>, as far as the page and the host can see it: the handler is
  registered on the web channel (WebEngine only) and the terminal's URL is loaded. The
  actions, the focus policy and the cache clearing leave no entry in the trace.\<close>

definition TermView_init :: "qt_env \<Rightarrow> string \<Rightarrow> term_state \<Rightarrow> term_state" where
  "TermView_init env term_url s =
     (let s1 = (if WEBENGINE env then log (RegisterObject ''handler'') s else s)
      in log (Load term_url) s1)"

definition copy :: "term_state \<Rightarrow> term_state" where
  "copy s = log (TriggerPageAction Copy) s"

definition paste :: "term_state \<Rightarrow> term_state" where
  "paste s = log (TriggerPageAction Paste) s"

text \<open>\<open>TermView.wheelEvent\<close>; \<open>delta\<close> is \<open>event.angleDelta().y()\<close>.\<close>

definition wheelEvent :: "qt_env \<Rightarrow> int \<Rightarrow> term_state \<Rightarrow> term_state" where
  \<open>wheelEvent env delta s =
     snd (TermView_eval_javascript env (''scrollTerm('' @ py_str (PyInt delta) @ '')'') s)\<close>

text \<open>
  The key code with the offsets of the pressed modifiers added, in the order of the
  four \<open>if\<close> statements of \<open>TermView.event\<close>.
\<close>

definition chord :: "qt_env \<Rightarrow> qevent \<Rightarrow> int" where
  "chord env ev =
     (let k = key ev;
          m = modifiers ev;
          k = (if m AND ShiftModifier env \<noteq> 0 then k + SHIFT env else k);
          k = (if m AND ControlModifier env \<noteq> 0 then k + CTRL env else k);
          k = (if m AND AltModifier env \<noteq> 0 then k + ALT env else k);
          k = (if m AND MetaModifier env \<noteq> 0 then k + META env else k)
      in k)"

text \<open>
  \<open>TermView.event\<close>. The result is the returned flag, the event (with its accepted flag
  as \<open>accept()\<close> or \<open>ignore()\<close> left it) and the state.
\<close>

definition event :: "qt_env \<Rightarrow> qevent \<Rightarrow> term_state \<Rightarrow> bool \<times> qevent \<times> term_state" where
  "event env ev s =
     (if etype ev = ShortcutOverride then
        (let sequence = key_text env (chord env ev) in
         if sequence = ''Ctrl+Alt+Shift+T'' then (False, ev\<lparr>accepted := False\<rparr>, s)
         else
           (let s' = (if sequence = ''Ctrl+Shift+C'' then copy s
                      else if sequence = ''Ctrl+Shift+V'' then paste s
                      else s)
            in (True, ev\<lparr>accepted := True\<rparr>, s')))
      else WebView_event env ev s)"

subsection \<open>\<open>TerminalWidget\<close>\<close>

definition eval_javascript :: "qt_env \<Rightarrow> string \<Rightarrow> term_state \<Rightarrow> pyval \<times> term_state" where
  "eval_javascript env script s = TermView_eval_javascript env script s"

definition set_dir :: "qt_env \<Rightarrow> pyval \<Rightarrow> term_state \<Rightarrow> term_state" where
  \<open>set_dir env path s = snd (eval_javascript env (''setcwd("'' @ py_str path @ ''")'') s)\<close>

definition set_font :: "qt_env \<Rightarrow> pyval \<Rightarrow> term_state \<Rightarrow> term_state" where
  \<open>set_font env fnt s =
     (let s1 = s\<lparr>font := fnt\<rparr>
      in snd (eval_javascript env (''fitFont("'' @ py_str (font s1) @ ''")'') s1))\<close>

definition get_fonts :: "qt_env \<Rightarrow> term_state \<Rightarrow> pyval \<times> term_state" where
  "get_fonts env s = eval_javascript env ''getFonts()'' s"

definition search_next :: "qt_env \<Rightarrow> pyval \<Rightarrow> term_state \<Rightarrow> pyval \<times> term_state" where
  \<open>search_next env regex s = eval_javascript env (''searchNext("'' @ py_str regex @ ''")'') s\<close>

definition search_previous :: "qt_env \<Rightarrow> pyval \<Rightarrow> term_state \<Rightarrow> pyval \<times> term_state" where
  \<open>search_previous env regex s =
     eval_javascript env (''searchPrevious("'' @ py_str regex @ ''")'') s\<close>

definition exec_cmd :: "qt_env \<Rightarrow> pyval \<Rightarrow> term_state \<Rightarrow> term_state" where
  \<open>exec_cmd env cmd s = snd (eval_javascript env (''exec("'' @ py_str cmd @ ''")'') s)\<close>

definition is_alive :: "qt_env \<Rightarrow> term_state \<Rightarrow> pyval \<times> term_state" where
  "is_alive env s = (let (alive, s') = eval_javascript env ''isAlive()'' s in (alive, s'))"

text \<open>
  \<open>QTimer.singleShot(ms, cb)\<close>: the timer is due \<open>ms\<close> milliseconds from now; timers that
  are due earlier fire earlier, timers due at the same time in the order they were set.
\<close>

fun enqueue :: "nat \<times> callback \<Rightarrow> (nat \<times> callback) list \<Rightarrow> (nat \<times> callback) list" where
  "enqueue t [] = [t]"
| "enqueue t (u # us) = (if fst t < fst u then t # u # us else u # enqueue t us)"

definition singleShot :: "nat \<Rightarrow> callback \<Rightarrow> term_state \<Rightarrow> term_state" where
  "singleShot ms cb s =
     (log (SingleShot ms cb) s)\<lparr>pending := enqueue (clock s + ms, cb) (pending s)\<rparr>"

text \<open>\<open>TerminalWidget.__alive_loopback\<close>: one poll.\<close>

definition alive_loopback :: "qt_env \<Rightarrow> term_state \<Rightarrow> term_state" where
  "alive_loopback env s =
     (let (alive, s1) = is_alive env s in
      if \<not> truthy alive then log (Emit terminal_closed) s1
      else singleShot 250 alive_loopback_cb s1)"

text \<open>\<open>TerminalWidget.set_option\<close> (the name \<open>set_option\<close> is taken in HOL).\<close>

definition set_option_cmd :: "qt_env \<Rightarrow> pyval \<Rightarrow> pyval \<Rightarrow> term_state \<Rightarrow> term_state" where
  \<open>set_option_cmd env option_name option s =
     snd (eval_javascript env
            (''setOption("'' @ py_str option_name @ ''", "'' @ py_str option @ ''")'') s)\<close>

text \<open>The dictionary literal \<open>cursor_choices\<close> of \<open>apply_settings\<close>.\<close>

definition cursor_choices :: "(pyval \<times> string) list" where
  "cursor_choices = [(PyInt 0, ''block''), (PyInt 1, ''underline''), (PyInt 2, ''bar'')]"

text \<open>
  \<open>TerminalWidget.apply_settings\<close>. The subscription \<open>cursor_choices[cursor_id]\<close> is the one
  place that can raise; what was sent before it stays sent.
\<close>

definition apply_settings ::
  "qt_env \<Rightarrow> (string \<rightharpoonup> pyval) \<Rightarrow> term_state \<Rightarrow> (error + unit) \<times> term_state" where
  "apply_settings env options s =
     (let s1 = (case options ''sound'' of
                  None \<Rightarrow> s
                | Some sound \<Rightarrow>
                    (let bell_style = (if truthy sound then ''sound'' else ''none'')
                     in set_option_cmd env (PyStr ''bellStyle'') (PyStr bell_style) s))
      in case options ''cursor_type'' of
           None \<Rightarrow> (Inr (), s1)
         | Some cursor_id \<Rightarrow>
             (case dict_getitem cursor_choices cursor_id of
                Inl e \<Rightarrow> (Inl e, s1)
              | Inr style \<Rightarrow> (Inr (), set_option_cmd env (PyStr ''cursorStyle'') (PyStr style) s1)))"

text \<open>
  The dictionary \<open>setup_term\<close> builds from the host's configuration: one entry per option
  name, a later entry for the same name replacing an earlier one.
\<close>

definition dict_options :: "qt_env \<Rightarrow> (string \<rightharpoonup> pyval)" where
  "dict_options env =
     fold (\<lambda>option d. d(option \<mapsto> get_option env option)) (conf_options env) Map.empty"

definition setup_term :: "qt_env \<Rightarrow> term_state \<Rightarrow> (error + unit) \<times> term_state" where
  "setup_term env s =
     (let s1 = log (Print [CHR 0x00]) s;
          s2 = set_font env (font s1) s1;
          s3 = set_dir env (initial_path s2) s2
      in apply_settings env (dict_options env) s3)"

text \<open>
  \<open>TerminalWidget.__init__\<close>. The state it leaves: the view constructed (its URL loaded),
  the two attributes set and, without WebEngine, the first poll due in 250 ms.
\<close>

definition TerminalWidget_init :: "qt_env \<Rightarrow> pyval \<Rightarrow> pyval \<Rightarrow> pyval \<Rightarrow> term_state" where
  "TerminalWidget_init env port path fnt =
     (let url = ''http://127.0.0.1:'' @ py_str port @ ''?path='' @ py_str path;
          s = TermView_init env url
                \<lparr>font = fnt, initial_path = path, trace = [], pending = [], clock = 0\<rparr>
      in if \<not> WEBENGINE env then singleShot 250 alive_loopback_cb s else s)"

subsection \<open>\<open>ChannelHandler\<close> and the slots connected in \<open>__init__\<close>\<close>

text \<open>
  \<open>ChannelHandler.ready\<close> emits \<open>sig_ready\<close>; its slots run in the order they were
  connected: first the lambda that emits \<open>terminal_ready\<close>, then \<open>setup_term\<close>.
  \<open>ChannelHandler.close\<close> emits \<open>sig_closed\<close>, whose one slot emits \<open>terminal_closed\<close>.
\<close>

definition ChannelHandler_ready :: "qt_env \<Rightarrow> term_state \<Rightarrow> (error + unit) \<times> term_state" where
  "ChannelHandler_ready env s = setup_term env (log (Emit terminal_ready) s)"

definition ChannelHandler_close :: "term_state \<Rightarrow> term_state" where
  "ChannelHandler_close s = log (Emit terminal_closed) s"

subsection \<open>The event loop's timers\<close>

fun run_callback :: "qt_env \<Rightarrow> callback \<Rightarrow> term_state \<Rightarrow> term_state" where
  "run_callback env alive_loopback_cb s = alive_loopback env s"

text \<open>
  The event loop fires the pending single-shot timers, the earliest first, each at its due
  time, until none is left. A callback may set a new timer, so the loop need not end:
  \<open>None\<close> is the loop that never runs out of timers.
\<close>

partial_function (option) run_timers :: "qt_env \<Rightarrow> term_state \<Rightarrow> term_state option" where
  "run_timers env s =
     (case pending s of
        [] \<Rightarrow> Some s
      | (due, cb) # rest \<Rightarrow>
          run_timers env (run_callback env cb (s\<lparr>pending := rest, clock := due\<rparr>)))"

declare run_timers.simps [code]

subsection \<open>Notions used to state the properties\<close>

text \<open>The trace entry of a script handed to the document of the backend in use.\<close>

definition js_call :: "qt_env \<Rightarrow> string \<Rightarrow> effect" where
  "js_call env script = (if WEBENGINE env then RunJavaScript script else EvaluateJavaScript script)"

text \<open>The trace entry of a \<open>setOption\<close> command with the given name and value.\<close>

definition setOption_call :: "qt_env \<Rightarrow> string \<Rightarrow> string \<Rightarrow> effect" where
  \<open>setOption_call env name val =
     js_call env (''spyder_terminal.default.setOption("'' @ name @ ''", "'' @ val @ ''")'')\<close>

text \<open>Reading a decimal numeral back: the inverse of \<open>str_int\<close>.\<close>

definition digit_val :: "char \<Rightarrow> nat" where
  "digit_val c = of_char c - 48"

definition nat_of_digits :: "string \<Rightarrow> nat" where
  "nat_of_digits cs = foldl (\<lambda>n c. 10 * n + digit_val c) 0 cs"

definition int_of_str :: "string \<Rightarrow> int" where
  "int_of_str cs =
     (if cs \<noteq> [] \<and> hd cs = CHR ''-'' then - int (nat_of_digits (tl cs))
      else int (nat_of_digits cs))"

text \<open>
  A page whose \<open>isAlive()\<close> answers true as long as fewer than \<open>n\<close> scripts were evaluated
  before it, and false from then on; every other script evaluates to nothing.
\<close>

definition alive_for :: "nat \<Rightarrow> nat \<Rightarrow> string \<Rightarrow> pyval" where
  "alive_for n k script =
     (if script = ''spyder_terminal.default.isAlive()'' then PyBool (k < n) else PyNone)"

text \<open>
  A concrete environment for the instances below. The modifier constants have the values
  of the Qt namespace (\<open>0x02000000\<close>, \<open>0x04000000\<close>, \<open>0x08000000\<close>, \<open>0x10000000\<close>), and
  \<open>qt_key_text\<close> renders a key the way Qt's portable text does for the keys whose code is
  a printable ASCII character: the modifiers in the order Meta, Ctrl, Alt, Shift, each
  followed by \<open>+\<close>, then the character.
\<close>

definition qt_key_text :: "int \<Rightarrow> string" where
  "qt_key_text k =
     (if k AND 0x10000000 \<noteq> 0 then ''Meta+'' else []) @
     (if k AND 0x04000000 \<noteq> 0 then ''Ctrl+'' else []) @
     (if k AND 0x08000000 \<noteq> 0 then ''Alt+'' else []) @
     (if k AND 0x02000000 \<noteq> 0 then ''Shift+'' else []) @
     [char_of (k AND 0x01FFFFFF)]"

definition qt5 :: "bool \<Rightarrow> (nat \<Rightarrow> string \<Rightarrow> pyval) \<Rightarrow> (string \<times> pyval) list \<Rightarrow> qt_env" where
  "qt5 webengine page conf =
     \<lparr>WEBENGINE = webengine, page_eval = page,
      conf_options = map fst conf,
      get_option = (\<lambda>option. case map_of conf option of None \<Rightarrow> PyNone | Some v \<Rightarrow> v),
      key_text = qt_key_text,
      WebView_event = (\<lambda>ev s. (False, ev, s)),
      ShiftModifier = 0x02000000, ControlModifier = 0x04000000,
      AltModifier = 0x08000000, MetaModifier = 0x10000000,
      SHIFT = 0x02000000, CTRL = 0x04000000, ALT = 0x08000000, META = 0x10000000\<rparr>"

section \<open>Properties\<close>

subsection \<open>What each method adds to the trace\<close>

lemma trace_log: "trace (log e s) = trace s @ [e]"
  by (simp add: log_def)

lemma TermView_eval_javascript_eq:
  "TermView_eval_javascript env script s = (PyNone, log (js_call env (PREFIX @ script)) s)"
  by (simp add: TermView_eval_javascript_def runJavaScript_def evaluateJavaScript_def js_call_def)

lemma eval_javascript_eq:
  "eval_javascript env script s = (PyNone, log (js_call env (PREFIX @ script)) s)"
  by (simp add: eval_javascript_def TermView_eval_javascript_eq)

lemma is_alive_eq:
  "is_alive env s = (PyNone, log (js_call env (PREFIX @ ''isAlive()'')) s)"
  by (simp add: is_alive_def eval_javascript_eq)

lemma alive_loopback_eq:
  "alive_loopback env s =
     log (Emit terminal_closed) (log (js_call env (PREFIX @ ''isAlive()'')) s)"
  by (simp add: alive_loopback_def is_alive_eq)

lemma set_option_eq:
  \<open>set_option_cmd env (PyStr name) (PyStr v) s =
     log (js_call env (PREFIX @ ''setOption("'' @ name @ ''", "'' @ v @ ''")'')) s\<close>
  by (simp add: set_option_cmd_def eval_javascript_eq)

lemma set_option_call:
  "set_option_cmd env (PyStr name) (PyStr v) s = s\<lparr>trace := trace s @ [setOption_call env name v]\<rparr>"
  by (simp add: set_option_eq setOption_call_def log_def PREFIX_def)

lemma set_font_eq:
  \<open>set_font env fnt s =
     log (js_call env (PREFIX @ ''fitFont("'' @ py_str fnt @ ''")'')) (s\<lparr>font := fnt\<rparr>)\<close>
  by (simp add: set_font_def eval_javascript_eq)

lemma set_dir_eq:
  \<open>set_dir env path s = log (js_call env (PREFIX @ ''setcwd("'' @ py_str path @ ''")'')) s\<close>
  by (simp add: set_dir_def eval_javascript_eq)

lemma digit_val_nth: "d < 10 \<Longrightarrow> digit_val (''0123456789'' ! d) = d"
proof -
  assume "d < 10"
  then have "d \<in> {0, 1, 2, 3, 4, 5, 6, 7, 8, 9}" by auto
  then show ?thesis by (auto simp: digit_val_def)
qed

lemma digit_not_minus: "d < 10 \<Longrightarrow> ''0123456789'' ! d \<noteq> CHR ''-''"
proof -
  assume "d < 10"
  then have "d \<in> {0, 1, 2, 3, 4, 5, 6, 7, 8, 9}" by auto
  then show ?thesis by auto
qed

lemma nat_of_digits_snoc: "nat_of_digits (cs @ [c]) = 10 * nat_of_digits cs + digit_val c"
  by (simp add: nat_of_digits_def)

lemma nat_of_digits_nat_digits: "nat_of_digits (nat_digits n) = n"
proof (induction n rule: nat_digits.induct)
  case (1 n)
  show ?case
  proof (cases "n < 10")
    case True
    then show ?thesis
      by (subst nat_digits.simps) (simp add: nat_of_digits_def digit_val_nth)
  next
    case False
    with 1 have "nat_of_digits (nat_digits (n div 10)) = n div 10" by simp
    with False show ?thesis
      by (subst nat_digits.simps) (simp add: nat_of_digits_snoc digit_val_nth)
  qed
qed

lemma nat_digits_head: "nat_digits n \<noteq> [] \<and> hd (nat_digits n) \<noteq> CHR ''-''"
proof (induction n rule: nat_digits.induct)
  case (1 n)
  show ?case
  proof (cases "n < 10")
    case True
    then show ?thesis
      by (subst (1 2) nat_digits.simps) (simp add: digit_not_minus)
  next
    case False
    with 1 have "nat_digits (n div 10) \<noteq> [] \<and> hd (nat_digits (n div 10)) \<noteq> CHR ''-''"
      by simp
    with False show ?thesis
      by (subst (1 2) nat_digits.simps) simp
  qed
qed

lemma int_of_str_str_int: "int_of_str (str_int i) = i"
proof (cases "i < 0")
  case True
  then show ?thesis
    by (simp add: int_of_str_def str_int_def nat_of_digits_nat_digits)
next
  case False
  then show ?thesis
    using nat_digits_head [of "nat i"]
    by (simp add: int_of_str_def str_int_def nat_of_digits_nat_digits)
qed

lemma liveness_one_poll:
  "run_timers (env\<lparr>WEBENGINE := False\<rparr>)
     (TerminalWidget_init (env\<lparr>WEBENGINE := False\<rparr>) port path fnt) =
   Some \<lparr>font = fnt, initial_path = path,
         trace = [Load (''http://127.0.0.1:'' @ py_str port @ ''?path='' @ py_str path),
                  SingleShot 250 alive_loopback_cb,
                  EvaluateJavaScript ''spyder_terminal.default.isAlive()'',
                  Emit terminal_closed],
         pending = [], clock = 250\<rparr>"
  apply (subst run_timers.simps)
  apply (simp add: TerminalWidget_init_def TermView_init_def singleShot_def log_def
                   alive_loopback_eq js_call_def PREFIX_def)
  apply (subst run_timers.simps)
  apply simp
  done

lemma qt5_sel:
  "WEBENGINE (qt5 w p c) = w" "page_eval (qt5 w p c) = p" "conf_options (qt5 w p c) = map fst c"
  "key_text (qt5 w p c) = qt_key_text"
  "ShiftModifier (qt5 w p c) = 0x02000000" "ControlModifier (qt5 w p c) = 0x04000000"
  "AltModifier (qt5 w p c) = 0x08000000" "MetaModifier (qt5 w p c) = 0x10000000"
  "SHIFT (qt5 w p c) = 0x02000000" "CTRL (qt5 w p c) = 0x04000000"
  "ALT (qt5 w p c) = 0x08000000" "META (qt5 w p c) = 0x10000000"
  "get_option (qt5 w p c) = (\<lambda>option. case map_of c option of None \<Rightarrow> PyNone | Some v \<Rightarrow> v)"
  by (simp_all add: qt5_def)

lemma dict_options_eq:
  "dict_options env option =
     (if option \<in> set (conf_options env) then Some (get_option env option) else None)"
proof -
  have "fold (\<lambda>option d. d(option \<mapsto> get_option env option)) xs m option =
          (if option \<in> set xs then Some (get_option env option) else m option)" for xs m
    by (induction xs arbitrary: m) auto
  then show ?thesis by (simp add: dict_options_def)
qed

subsection \<open>The value of a command\<close>

text \<open>
  C1. On a backend without WebEngine a value-returning command should hand the page's value
  back to the caller. It does not: \<open>TermView.eval_javascript\<close> drops the value of
  \<open>evaluateJavaScript\<close>. At a freshly constructed widget whose page answers \<open>isAlive()\<close>
  with true, the document's call evaluates to \<open>True\<close> and \<open>is_alive\<close> returns \<open>None\<close>.
\<close>

theorem is_alive_drops_page_value:
  "fst (evaluateJavaScript (qt5 False (alive_for 1) []) ''spyder_terminal.default.isAlive()''
          (TerminalWidget_init (qt5 False (alive_for 1) []) (PyInt 8070) (PyStr ''~'') PyNone))
     = PyBool True
   \<and> fst (is_alive (qt5 False (alive_for 1) [])
          (TerminalWidget_init (qt5 False (alive_for 1) []) (PyInt 8070) (PyStr ''~'') PyNone))
     = PyNone"
  by (simp add: evaluateJavaScript_def js_count_def TerminalWidget_init_def TermView_init_def
        singleShot_def log_def qt5_sel alive_for_def is_alive_eq)

subsection \<open>The liveness loop\<close>

text \<open>
  C2. With a page that answers \<open>isAlive()\<close> with true on the first poll and false on the
  second (N = 1), the loop should poll twice before it emits \<open>terminal_closed\<close>. The first
  poll is set 250 ms after construction, as claimed, but the widget emits
  \<open>terminal_closed\<close> after that first poll, at 250 ms, although the page answered true:
  \<open>is_alive\<close> returned \<open>None\<close>, which \<open>not alive\<close> takes for a dead terminal.
\<close>

theorem liveness_closes_on_first_poll_while_alive:
  "alive_for 1 0 ''spyder_terminal.default.isAlive()'' = PyBool True
   \<and> run_timers (qt5 False (alive_for 1) [])
        (TerminalWidget_init (qt5 False (alive_for 1) []) (PyInt 8070) (PyStr ''~'') PyNone) =
      Some \<lparr>font = PyNone, initial_path = PyStr ''~'',
            trace = [Load ''http://127.0.0.1:8070?path=~'',
                     SingleShot 250 alive_loopback_cb,
                     EvaluateJavaScript ''spyder_terminal.default.isAlive()'',
                     Emit terminal_closed],
            pending = [], clock = 250\<rparr>"
proof -
  have env: "(qt5 False (alive_for 1) [])\<lparr>WEBENGINE := False\<rparr> = qt5 False (alive_for 1) []"
    by (simp add: qt5_def)
  have port: "str_int 8070 = ''8070''"
    by (simp add: str_int_def nat_digits.simps)
  have answer: "alive_for 1 0 ''spyder_terminal.default.isAlive()'' = PyBool True"
    by (simp add: alive_for_def)
  show ?thesis
    using liveness_one_poll [of "qt5 False (alive_for 1) []" "PyInt 8070" "PyStr ''~''" PyNone]
    unfolding env by (simp only: answer py_str.simps port append.simps simp_thms)
qed

subsection \<open>Settings\<close>

text \<open>
  C3. For every options map with \<open>sound = True\<close> and \<open>cursor_type = 1\<close>, whatever other keys
  it has, \<open>apply_settings\<close> sends exactly the two scripts \<open>setOption("bellStyle", "sound")\<close>
  and \<open>setOption("cursorStyle", "underline")\<close> (under the prefix), changes nothing else and
  raises nothing; the map's keys other than \<open>sound\<close> and \<open>cursor_type\<close>, taken alone, send
  nothing and raise nothing.
\<close>

theorem apply_settings_sound_underline:
  assumes "options ''sound'' = Some (PyBool True)"
    and "options ''cursor_type'' = Some (PyInt 1)"
  shows \<open>apply_settings env options s =
           (Inr (), s\<lparr>trace := trace s @
              [js_call env ''spyder_terminal.default.setOption("bellStyle", "sound")'',
               js_call env ''spyder_terminal.default.setOption("cursorStyle", "underline")'']\<rparr>)
         \<and> apply_settings env (options |` (- {''sound'', ''cursor_type''})) s = (Inr (), s)\<close>
proof
  show \<open>apply_settings env options s =
           (Inr (), s\<lparr>trace := trace s @
              [js_call env ''spyder_terminal.default.setOption("bellStyle", "sound")'',
               js_call env ''spyder_terminal.default.setOption("cursorStyle", "underline")'']\<rparr>)\<close>
    using assms
    by (simp add: apply_settings_def cursor_choices_def set_option_eq log_def PREFIX_def)
next
  have "(options |` (- {''sound'', ''cursor_type''})) ''sound'' = None"
    and "(options |` (- {''sound'', ''cursor_type''})) ''cursor_type'' = None"
    by simp_all
  then show "apply_settings env (options |` (- {''sound'', ''cursor_type''})) s = (Inr (), s)"
    by (simp add: apply_settings_def)
qed

theorem apply_settings_sound_underline_witness:
  \<open>apply_settings (qt5 True (alive_for 0) [])
     (map_of [(''sound'', PyBool True), (''cursor_type'', PyInt 1), (''font_size'', PyInt 10)])
     \<lparr>font = PyNone, initial_path = PyStr ''~'', trace = [], pending = [], clock = 0\<rparr> =
   (Inr (),
    \<lparr>font = PyNone, initial_path = PyStr ''~'',
     trace = [RunJavaScript ''spyder_terminal.default.setOption("bellStyle", "sound")'',
              RunJavaScript ''spyder_terminal.default.setOption("cursorStyle", "underline")''],
     pending = [], clock = 0\<rparr>)
   \<and> apply_settings (qt5 True (alive_for 0) [])
       (map_of [(''sound'', PyBool True), (''cursor_type'', PyInt 1), (''font_size'', PyInt 10)]
          |` (- {''sound'', ''cursor_type''}))
       \<lparr>font = PyNone, initial_path = PyStr ''~'', trace = [], pending = [], clock = 0\<rparr> =
     (Inr (), \<lparr>font = PyNone, initial_path = PyStr ''~'', trace = [], pending = [], clock = 0\<rparr>)\<close>
  using apply_settings_sound_underline
    [of "map_of [(''sound'', PyBool True), (''cursor_type'', PyInt 1), (''font_size'', PyInt 10)]"
        "qt5 True (alive_for 0) []"
        "\<lparr>font = PyNone, initial_path = PyStr ''~'', trace = [], pending = [], clock = 0\<rparr>"]
  by (simp add: js_call_def qt5_sel)

subsection \<open>Keyboard shortcuts\<close>

text \<open>
  C4. On a \<open>ShortcutOverride\<close> event, whatever the key and the modifiers: when the chord's
  text is \<open>Ctrl+Shift+C\<close> the copy action is triggered and the event is accepted, with
  \<open>True\<close> returned; \<open>Ctrl+Shift+V\<close> does the same with the paste action;
  \<open>Ctrl+Alt+Shift+T\<close> triggers nothing, the event is ignored and \<open>False\<close> is returned; any
  other chord is accepted with \<open>True\<close> returned and nothing triggered.
\<close>

theorem shortcut_override_dispatch:
  assumes "etype ev = ShortcutOverride"
  shows "(key_text env (chord env ev) = ''Ctrl+Shift+C'' \<longrightarrow>
            event env ev s =
              (True, ev\<lparr>accepted := True\<rparr>, s\<lparr>trace := trace s @ [TriggerPageAction Copy]\<rparr>))
       \<and> (key_text env (chord env ev) = ''Ctrl+Shift+V'' \<longrightarrow>
            event env ev s =
              (True, ev\<lparr>accepted := True\<rparr>, s\<lparr>trace := trace s @ [TriggerPageAction Paste]\<rparr>))
       \<and> (key_text env (chord env ev) = ''Ctrl+Alt+Shift+T'' \<longrightarrow>
            event env ev s = (False, ev\<lparr>accepted := False\<rparr>, s))
       \<and> (key_text env (chord env ev) \<notin> {''Ctrl+Shift+C'', ''Ctrl+Shift+V'', ''Ctrl+Alt+Shift+T''} \<longrightarrow>
            event env ev s = (True, ev\<lparr>accepted := True\<rparr>, s))"
  using assms by (simp add: event_def copy_def paste_def log_def)

lemma chord_examples:
  "chord (qt5 w p c) \<lparr>etype = ShortcutOverride, key = 0x43, modifiers = 0x06000000, accepted = False\<rparr>
     = 0x06000043"
  "chord (qt5 w p c) \<lparr>etype = ShortcutOverride, key = 0x56, modifiers = 0x06000000, accepted = False\<rparr>
     = 0x06000056"
  "chord (qt5 w p c) \<lparr>etype = ShortcutOverride, key = 0x54, modifiers = 0x0E000000, accepted = True\<rparr>
     = 0x0E000054"
  "chord (qt5 w p c) \<lparr>etype = ShortcutOverride, key = 0x41, modifiers = 0, accepted = False\<rparr>
     = 0x41"
  by (simp_all add: chord_def qt5_sel)

lemma qt_key_text_examples:
  "qt_key_text 0x06000043 = ''Ctrl+Shift+C''"
  "qt_key_text 0x06000056 = ''Ctrl+Shift+V''"
  "qt_key_text 0x0E000054 = ''Ctrl+Alt+Shift+T''"
  "qt_key_text 0x41 = ''A''"
  by (simp_all add: qt_key_text_def char_of_def)

theorem shortcut_override_dispatch_witness:
  "event (qt5 True (alive_for 0) [])
     \<lparr>etype = ShortcutOverride, key = 0x43, modifiers = 0x06000000, accepted = False\<rparr>
     \<lparr>font = PyNone, initial_path = PyStr ''~'', trace = [], pending = [], clock = 0\<rparr> =
   (True, \<lparr>etype = ShortcutOverride, key = 0x43, modifiers = 0x06000000, accepted = True\<rparr>,
    \<lparr>font = PyNone, initial_path = PyStr ''~'', trace = [TriggerPageAction Copy],
     pending = [], clock = 0\<rparr>)
   \<and> event (qt5 True (alive_for 0) [])
     \<lparr>etype = ShortcutOverride, key = 0x56, modifiers = 0x06000000, accepted = False\<rparr>
     \<lparr>font = PyNone, initial_path = PyStr ''~'', trace = [], pending = [], clock = 0\<rparr> =
   (True, \<lparr>etype = ShortcutOverride, key = 0x56, modifiers = 0x06000000, accepted = True\<rparr>,
    \<lparr>font = PyNone, initial_path = PyStr ''~'', trace = [TriggerPageAction Paste],
     pending = [], clock = 0\<rparr>)
   \<and> event (qt5 True (alive_for 0) [])
     \<lparr>etype = ShortcutOverride, key = 0x54, modifiers = 0x0E000000, accepted = True\<rparr>
     \<lparr>font = PyNone, initial_path = PyStr ''~'', trace = [], pending = [], clock = 0\<rparr> =
   (False, \<lparr>etype = ShortcutOverride, key = 0x54, modifiers = 0x0E000000, accepted = False\<rparr>,
    \<lparr>font = PyNone, initial_path = PyStr ''~'', trace = [], pending = [], clock = 0\<rparr>)
   \<and> event (qt5 True (alive_for 0) [])
     \<lparr>etype = ShortcutOverride, key = 0x41, modifiers = 0, accepted = False\<rparr>
     \<lparr>font = PyNone, initial_path = PyStr ''~'', trace = [], pending = [], clock = 0\<rparr> =
   (True, \<lparr>etype = ShortcutOverride, key = 0x41, modifiers = 0, accepted = True\<rparr>,
    \<lparr>font = PyNone, initial_path = PyStr ''~'', trace = [], pending = [], clock = 0\<rparr>)"
  using
    shortcut_override_dispatch
      [of "\<lparr>etype = ShortcutOverride, key = 0x43, modifiers = 0x06000000, accepted = False\<rparr>"
          "qt5 True (alive_for 0) []"
          "\<lparr>font = PyNone, initial_path = PyStr ''~'', trace = [], pending = [], clock = 0\<rparr>"]
    shortcut_override_dispatch
      [of "\<lparr>etype = ShortcutOverride, key = 0x56, modifiers = 0x06000000, accepted = False\<rparr>"
          "qt5 True (alive_for 0) []"
          "\<lparr>font = PyNone, initial_path = PyStr ''~'', trace = [], pending = [], clock = 0\<rparr>"]
    shortcut_override_dispatch
      [of "\<lparr>etype = ShortcutOverride, key = 0x54, modifiers = 0x0E000000, accepted = True\<rparr>"
          "qt5 True (alive_for 0) []"
          "\<lparr>font = PyNone, initial_path = PyStr ''~'', trace = [], pending = [], clock = 0\<rparr>"]
    shortcut_override_dispatch
      [of "\<lparr>etype = ShortcutOverride, key = 0x41, modifiers = 0, accepted = False\<rparr>"
          "qt5 True (alive_for 0) []"
          "\<lparr>font = PyNone, initial_path = PyStr ''~'', trace = [], pending = [], clock = 0\<rparr>"]
  by (simp add: chord_examples qt_key_text_examples qt5_sel)

subsection \<open>Commands\<close>

text \<open>
  C5. For every path, \<open>set_dir\<close> hands the document exactly one script, the text
  \<open>setcwd("<path>")\<close> after the prefix \<open>spyder_terminal.default.\<close>, and changes nothing
  else; for \<open>/tmp/x\<close> the script is \<open>spyder_terminal.default.setcwd("/tmp/x")\<close>.
\<close>

theorem set_dir_command_text:
  \<open>set_dir env (PyStr path) s =
     s\<lparr>trace := trace s @ [js_call env (''spyder_terminal.default.'' @ ''setcwd("'' @ path @ ''")'')]\<rparr>
   \<and> set_dir env arg s =
       s\<lparr>trace := trace s @
          [js_call env (''spyder_terminal.default.'' @ ''setcwd("'' @ py_str arg @ ''")'')]\<rparr>
   \<and> trace (set_dir env (PyStr ''/tmp/x'') s) =
       trace s @ [js_call env ''spyder_terminal.default.setcwd("/tmp/x")'']\<close>
  by (simp add: set_dir_eq log_def PREFIX_def)

text \<open>
  C8. Two calls of \<open>set_font\<close> with the same font add two equal \<open>fitFont\<close> scripts to the
  trace, and the state after the second call is the state after the first with that one
  script more: the stored font is the same.
\<close>

theorem set_font_twice:
  \<open>trace (set_font env fnt (set_font env fnt s)) =
     trace s @ [js_call env (''spyder_terminal.default.fitFont("'' @ py_str fnt @ ''")''),
                js_call env (''spyder_terminal.default.fitFont("'' @ py_str fnt @ ''")'')]
   \<and> font (set_font env fnt (set_font env fnt s)) = font (set_font env fnt s)
   \<and> font (set_font env fnt s) = fnt
   \<and> set_font env fnt (set_font env fnt s) =
       (set_font env fnt s)\<lparr>trace := trace (set_font env fnt s) @
          [js_call env (''spyder_terminal.default.fitFont("'' @ py_str fnt @ ''")'')]\<rparr>\<close>
  by (simp add: set_font_eq log_def PREFIX_def)

text \<open>
  C10. A wheel event hands the document exactly one script, \<open>scrollTerm(<delta>)\<close> under the
  prefix, where the argument is the decimal numeral of the event's vertical angle delta
  (reading the numeral back gives the delta), and changes nothing else; for a delta of
  \<open>-120\<close> the script is \<open>spyder_terminal.default.scrollTerm(-120)\<close>.
\<close>

theorem wheelEvent_scrollTerm:
  \<open>wheelEvent env delta s =
     s\<lparr>trace := trace s @
        [js_call env (''spyder_terminal.default.scrollTerm('' @ str_int delta @ '')'')]\<rparr>
   \<and> int_of_str (str_int delta) = delta
   \<and> wheelEvent env (- 120) s =
       s\<lparr>trace := trace s @ [js_call env ''spyder_terminal.default.scrollTerm(-120)'']\<rparr>\<close>
proof -
  have "str_int (- 120) = ''-120''"
    by (simp add: str_int_def nat_digits.simps)
  then show ?thesis
    by (simp add: wheelEvent_def TermView_eval_javascript_eq log_def PREFIX_def int_of_str_str_int)
qed

subsection \<open>Settings and the ready notification\<close>

lemma apply_settings_appends:
  "\<exists>cmds. snd (apply_settings env options s) = s\<lparr>trace := trace s @ cmds\<rparr>
     \<and> (\<forall>c \<in> set cmds. \<exists>name val. c = setOption_call env name val)"
proof -
  let ?ok = "\<lambda>cmds. \<forall>c \<in> set cmds. \<exists>name val. c = setOption_call env name val"
  define s1 where "s1 =
    (case options ''sound'' of None \<Rightarrow> s
     | Some sound \<Rightarrow>
         set_option_cmd env (PyStr ''bellStyle'') (PyStr (if truthy sound then ''sound'' else ''none'')) s)"
  have 1: "\<exists>cmds. s1 = s\<lparr>trace := trace s @ cmds\<rparr> \<and> ?ok cmds"
  proof (cases "options ''sound''")
    case None
    then have "s1 = s\<lparr>trace := trace s @ []\<rparr>" by (simp add: s1_def)
    then show ?thesis by (intro exI [of _ "[]"]) simp
  next
    case (Some sound)
    then have "s1 = s\<lparr>trace := trace s @
        [setOption_call env ''bellStyle'' (if truthy sound then ''sound'' else ''none'')]\<rparr>"
      by (simp add: s1_def set_option_call)
    then show ?thesis by fastforce
  qed
  then obtain cmds1 where s1: "s1 = s\<lparr>trace := trace s @ cmds1\<rparr>" and ok1: "?ok cmds1"
    by blast
  have 2: "\<exists>cmds. snd (apply_settings env options s) = s1\<lparr>trace := trace s1 @ cmds\<rparr> \<and> ?ok cmds"
  proof (cases "options ''cursor_type''")
    case None
    then have "snd (apply_settings env options s) = s1\<lparr>trace := trace s1 @ []\<rparr>"
      by (simp add: apply_settings_def s1_def Let_def split: option.splits)
    then show ?thesis by (intro exI [of _ "[]"]) simp
  next
    case (Some cursor_id)
    show ?thesis
    proof (cases "dict_getitem cursor_choices cursor_id")
      case (Inl e)
      with Some have "snd (apply_settings env options s) = s1\<lparr>trace := trace s1 @ []\<rparr>"
        by (simp add: apply_settings_def s1_def Let_def split: option.splits)
      then show ?thesis by (intro exI [of _ "[]"]) simp
    next
      case (Inr style)
      with Some have "snd (apply_settings env options s) =
          s1\<lparr>trace := trace s1 @ [setOption_call env ''cursorStyle'' style]\<rparr>"
        by (simp add: apply_settings_def s1_def set_option_call Let_def split: option.splits)
      then show ?thesis by fastforce
    qed
  qed
  then obtain cmds2 where
    s2: "snd (apply_settings env options s) = s1\<lparr>trace := trace s1 @ cmds2\<rparr>" and ok2: "?ok cmds2"
    by blast
  from s1 s2 have "snd (apply_settings env options s) = s\<lparr>trace := trace s @ (cmds1 @ cmds2)\<rparr>"
    by simp
  moreover from ok1 ok2 have "?ok (cmds1 @ cmds2)" by auto
  ultimately show ?thesis by blast
qed

lemma setup_term_eq:
  \<open>setup_term env s =
     apply_settings env (dict_options env)
       (s\<lparr>trace := trace s @
          [Print [CHR 0x00],
           js_call env (''spyder_terminal.default.fitFont("'' @ py_str (font s) @ ''")''),
           js_call env (''spyder_terminal.default.setcwd("'' @ py_str (initial_path s) @ ''")'')]\<rparr>)\<close>
  by (simp add: setup_term_def set_font_eq set_dir_eq log_def PREFIX_def)

text \<open>
  C6. When the page calls \<open>handler.ready()\<close>, the widget emits \<open>terminal_ready\<close>, prints the
  NUL character and then sends, in this order, \<open>fitFont\<close> with the stored font, \<open>setcwd\<close>
  with the initial path, and whatever \<open>apply_settings\<close> sends for the options read from the
  host's configuration at that moment (one entry per configured option, with its current
  value): only \<open>setOption\<close> commands follow the \<open>setcwd\<close> command.
\<close>

theorem ready_applies_font_dir_settings:
  \<open>ChannelHandler_ready env s =
     apply_settings env (dict_options env)
       (s\<lparr>trace := trace s @
          [Emit terminal_ready, Print [CHR 0x00],
           js_call env (''spyder_terminal.default.fitFont("'' @ py_str (font s) @ ''")''),
           js_call env (''spyder_terminal.default.setcwd("'' @ py_str (initial_path s) @ ''")'')]\<rparr>)
   \<and> (\<exists>cmds. trace (snd (ChannelHandler_ready env s)) =
         trace s @
          [Emit terminal_ready, Print [CHR 0x00],
           js_call env (''spyder_terminal.default.fitFont("'' @ py_str (font s) @ ''")''),
           js_call env (''spyder_terminal.default.setcwd("'' @ py_str (initial_path s) @ ''")'')]
          @ cmds
       \<and> (\<forall>c \<in> set cmds. \<exists>name val. c = setOption_call env name val))
   \<and> (\<forall>option. dict_options env option =
         (if option \<in> set (conf_options env) then Some (get_option env option) else None))\<close>
proof -
  let ?s3 = \<open>s\<lparr>trace := trace s @
          [Emit terminal_ready, Print [CHR 0x00],
           js_call env (''spyder_terminal.default.fitFont("'' @ py_str (font s) @ ''")''),
           js_call env (''spyder_terminal.default.setcwd("'' @ py_str (initial_path s) @ ''")'')]\<rparr>\<close>
  have eq: "ChannelHandler_ready env s = apply_settings env (dict_options env) ?s3"
    by (simp add: ChannelHandler_ready_def setup_term_eq log_def)
  from apply_settings_appends [of env "dict_options env" ?s3]
  obtain cmds where
    "snd (apply_settings env (dict_options env) ?s3) = ?s3\<lparr>trace := trace ?s3 @ cmds\<rparr>"
    and ok: "\<forall>c \<in> set cmds. \<exists>name val. c = setOption_call env name val"
    by blast
  then have "trace (snd (ChannelHandler_ready env s)) = trace ?s3 @ cmds"
    by (simp add: eq)
  then have tr: "trace (snd (ChannelHandler_ready env s)) = trace ?s3 @ cmds"
    by simp
  have "\<exists>cmds. trace (snd (ChannelHandler_ready env s)) = trace ?s3 @ cmds
       \<and> (\<forall>c \<in> set cmds. \<exists>name val. c = setOption_call env name val)"
    using tr ok by blast
  then show ?thesis
    using eq dict_options_eq by simp
qed

theorem ready_applies_font_dir_settings_witness:
  \<open>ChannelHandler_ready
     (qt5 True (alive_for 0) [(''sound'', PyBool True), (''cursor_type'', PyInt 1)])
     \<lparr>font = PyStr ''Mono'', initial_path = PyStr ''/tmp/x'', trace = [], pending = [], clock = 0\<rparr> =
   (Inr (),
    \<lparr>font = PyStr ''Mono'', initial_path = PyStr ''/tmp/x'',
     trace = [Emit terminal_ready, Print [CHR 0x00],
              RunJavaScript ''spyder_terminal.default.fitFont("Mono")'',
              RunJavaScript ''spyder_terminal.default.setcwd("/tmp/x")'',
              RunJavaScript ''spyder_terminal.default.setOption("bellStyle", "sound")'',
              RunJavaScript ''spyder_terminal.default.setOption("cursorStyle", "underline")''],
     pending = [], clock = 0\<rparr>)\<close>
proof -
  let ?env = "qt5 True (alive_for 0) [(''sound'', PyBool True), (''cursor_type'', PyInt 1)]"
  let ?s = "\<lparr>font = PyStr ''Mono'', initial_path = PyStr ''/tmp/x'', trace = [],
             pending = [], clock = 0\<rparr>"
  have opts: "dict_options ?env ''sound'' = Some (PyBool True)"
    "dict_options ?env ''cursor_type'' = Some (PyInt 1)"
    by (simp_all add: dict_options_def qt5_sel)
  from ready_applies_font_dir_settings [of ?env ?s]
  have \<open>ChannelHandler_ready ?env ?s =
     apply_settings ?env (dict_options ?env)
       (?s\<lparr>trace := trace ?s @
          [Emit terminal_ready, Print [CHR 0x00],
           js_call ?env (''spyder_terminal.default.fitFont("'' @ py_str (font ?s) @ ''")''),
           js_call ?env (''spyder_terminal.default.setcwd("'' @ py_str (initial_path ?s) @ ''")'')]\<rparr>)\<close>
    by (rule conjunct1)
  then show ?thesis
    by (simp add: apply_settings_def opts cursor_choices_def set_option_call setOption_call_def
          js_call_def qt5_sel)
qed

lemma cursor_lookup_cases:
  "dict_getitem cursor_choices c =
     (if py_eq (PyInt 0) c then Inr ''block''
      else if py_eq (PyInt 1) c then Inr ''underline''
      else if py_eq (PyInt 2) c then Inr ''bar''
      else Inl (KeyError c))"
  by (simp add: cursor_choices_def)

lemma apply_settings_bell:
  "options ''sound'' = Some sound \<Longrightarrow> options ''cursor_type'' = Some cursor_id \<Longrightarrow>
   apply_settings env options s =
     (case dict_getitem cursor_choices cursor_id of
        Inl e \<Rightarrow>
          (Inl e, s\<lparr>trace := trace s @
             [setOption_call env ''bellStyle'' (if truthy sound then ''sound'' else ''none'')]\<rparr>)
      | Inr style \<Rightarrow>
          (Inr (), s\<lparr>trace := trace s @
             [setOption_call env ''bellStyle'' (if truthy sound then ''sound'' else ''none''),
              setOption_call env ''cursorStyle'' style]\<rparr>))"
  by (simp add: apply_settings_def set_option_call split: sum.splits)

lemma apply_settings_fails:
  assumes "fst (apply_settings env options s) = Inl e"
  shows "\<exists>c. options ''cursor_type'' = Some c \<and> e = KeyError c
           \<and> dict_getitem cursor_choices c = Inl (KeyError c)"
proof (cases "options ''cursor_type''")
  case None
  with assms show ?thesis by (simp add: apply_settings_def)
next
  case (Some c)
  with assms have "dict_getitem cursor_choices c = Inl e"
    by (cases "dict_getitem cursor_choices c") (simp_all add: apply_settings_def Let_def)
  moreover from this have "e = KeyError c"
    by (simp add: cursor_lookup_cases split: if_splits)
  ultimately show ?thesis using Some by simp
qed

text \<open>
  C7. The lookup in \<open>cursor_choices\<close> gives \<open>block\<close> for 0, \<open>underline\<close> for 1 and \<open>bar\<close> for
  2. When \<open>cursor_type\<close> is one of these integers \<open>apply_settings\<close> does not fail and its
  last command sets \<open>cursorStyle\<close> to that name. If \<open>apply_settings\<close> fails at all, the
  failure is the \<open>KeyError\<close> of that lookup, for a \<open>cursor_type\<close> value that is none of
  the integers 0, 1, 2.
\<close>

theorem cursor_lookup_defined_on_0_1_2:
  "dict_getitem cursor_choices (PyInt 0) = Inr ''block''
   \<and> dict_getitem cursor_choices (PyInt 1) = Inr ''underline''
   \<and> dict_getitem cursor_choices (PyInt 2) = Inr ''bar''
   \<and> (options ''cursor_type'' = Some (PyInt n) \<and> n \<in> {0, 1, 2} \<longrightarrow>
        fst (apply_settings env options s) = Inr ()
        \<and> last (trace (snd (apply_settings env options s))) =
            setOption_call env ''cursorStyle''
              (if n = 0 then ''block'' else if n = 1 then ''underline'' else ''bar''))
   \<and> (\<forall>e. fst (apply_settings env options s) = Inl e \<longrightarrow>
        (\<exists>c. options ''cursor_type'' = Some c \<and> e = KeyError c
           \<and> dict_getitem cursor_choices c = Inl (KeyError c)
           \<and> c \<notin> {PyInt 0, PyInt 1, PyInt 2}))"
proof -
  have ok: "fst (apply_settings env options s) = Inr ()"
    if "options ''cursor_type'' = Some (PyInt n)" and "n \<in> {0, 1, 2}"
  proof (cases "fst (apply_settings env options s)")
    case (Inl e)
    from apply_settings_fails [OF this] that
    show ?thesis by (auto simp: cursor_lookup_cases)
  next
    case (Inr u)
    then show ?thesis by simp
  qed
  have bad: "\<exists>c. options ''cursor_type'' = Some c \<and> e = KeyError c
           \<and> dict_getitem cursor_choices c = Inl (KeyError c)
           \<and> c \<notin> {PyInt 0, PyInt 1, PyInt 2}"
    if "fst (apply_settings env options s) = Inl e" for e
  proof -
    from apply_settings_fails [OF that] obtain c where
      c: "options ''cursor_type'' = Some c" "e = KeyError c"
         "dict_getitem cursor_choices c = Inl (KeyError c)"
      by blast
    from c(3) have "c \<notin> {PyInt 0, PyInt 1, PyInt 2}"
      by (auto simp: cursor_lookup_cases)
    with c show ?thesis by blast
  qed
  have sent: "last (trace (snd (apply_settings env options s))) =
      setOption_call env ''cursorStyle''
        (if n = 0 then ''block'' else if n = 1 then ''underline'' else ''bar'')"
    if "options ''cursor_type'' = Some (PyInt n)" and "n \<in> {0, 1, 2}"
    using that
    by (auto simp: apply_settings_def cursor_lookup_cases set_option_call Let_def
             split: option.splits)
  show ?thesis
    using ok bad sent by (simp add: cursor_lookup_cases)
qed

theorem cursor_lookup_defined_on_0_1_2_witness:
  "fst (apply_settings (qt5 False (alive_for 0) []) (map_of [(''cursor_type'', PyInt 2)])
         \<lparr>font = PyNone, initial_path = PyStr ''~'', trace = [], pending = [], clock = 0\<rparr>)
     = Inr ()
   \<and> fst (apply_settings (qt5 False (alive_for 0) []) (map_of [(''cursor_type'', PyInt 5)])
         \<lparr>font = PyNone, initial_path = PyStr ''~'', trace = [], pending = [], clock = 0\<rparr>)
     = Inl (KeyError (PyInt 5))"
proof -
  let ?env = "qt5 False (alive_for 0) []"
  let ?s = "\<lparr>font = PyNone, initial_path = PyStr ''~'', trace = [], pending = [], clock = 0\<rparr>"
  have "fst (apply_settings ?env (map_of [(''cursor_type'', PyInt 2)]) ?s) = Inr ()"
    using cursor_lookup_defined_on_0_1_2 [of "map_of [(''cursor_type'', PyInt 2)]" 2 ?env ?s]
    by simp
  moreover have "fst (apply_settings ?env (map_of [(''cursor_type'', PyInt 5)]) ?s)
      = Inl (KeyError (PyInt 5))"
  proof (cases "fst (apply_settings ?env (map_of [(''cursor_type'', PyInt 5)]) ?s)")
    case (Inl e)
    then show ?thesis
      using cursor_lookup_defined_on_0_1_2 [of "map_of [(''cursor_type'', PyInt 5)]" 5 ?env ?s]
      by auto
  next
    case (Inr u)
    then show ?thesis
      by (simp add: apply_settings_def cursor_choices_def)
  qed
  ultimately show ?thesis by simp
qed

text \<open>
  C9, as amended. For every options map that has both \<open>sound\<close> and \<open>cursor_type\<close>: when the
  value of \<open>cursor_type\<close> is found in \<open>cursor_choices\<close> (0, 1 or 2), \<open>apply_settings\<close> sends
  exactly the \<open>bellStyle\<close> command and then the \<open>cursorStyle\<close> command, in this order for
  every such map; when it is not found, \<open>apply_settings\<close> sends the \<open>bellStyle\<close> command
  alone and raises the lookup's \<open>KeyError\<close>.
\<close>

theorem bell_call_precedes_cursor_call:
  assumes "options ''sound'' = Some sound" and "options ''cursor_type'' = Some cursor_id"
  shows "(\<forall>style. dict_getitem cursor_choices cursor_id = Inr style \<longrightarrow>
            apply_settings env options s =
              (Inr (), s\<lparr>trace := trace s @
                 [setOption_call env ''bellStyle'' (if truthy sound then ''sound'' else ''none''),
                  setOption_call env ''cursorStyle'' style]\<rparr>))
       \<and> (\<forall>e. dict_getitem cursor_choices cursor_id = Inl e \<longrightarrow>
            apply_settings env options s =
              (Inl e, s\<lparr>trace := trace s @
                 [setOption_call env ''bellStyle'' (if truthy sound then ''sound'' else ''none'')]\<rparr>))"
  using apply_settings_bell [OF assms, of env s] by simp

theorem bell_call_precedes_cursor_call_witness:
  \<open>apply_settings (qt5 False (alive_for 0) [])
     (map_of [(''cursor_type'', PyInt 2), (''sound'', PyBool False)])
     \<lparr>font = PyNone, initial_path = PyStr ''~'', trace = [], pending = [], clock = 0\<rparr> =
   (Inr (),
    \<lparr>font = PyNone, initial_path = PyStr ''~'',
     trace = [EvaluateJavaScript ''spyder_terminal.default.setOption("bellStyle", "none")'',
              EvaluateJavaScript ''spyder_terminal.default.setOption("cursorStyle", "bar")''],
     pending = [], clock = 0\<rparr>)\<close>
  using bell_call_precedes_cursor_call
    [of "map_of [(''cursor_type'', PyInt 2), (''sound'', PyBool False)]" "PyBool False" "PyInt 2"
        "qt5 False (alive_for 0) []"
        "\<lparr>font = PyNone, initial_path = PyStr ''~'', trace = [], pending = [], clock = 0\<rparr>"]
  by (simp add: cursor_lookup_cases setOption_call_def js_call_def qt5_sel)

text \<open>
  C9 as first stated, for every options map with both keys, fails where
  \<open>cursor_type\<close> is 5: the \<open>bellStyle\<close> command is sent, the lookup raises, and no
  \<open>cursorStyle\<close> command follows.
\<close>

theorem bell_without_cursor_call_counterexample:
  \<open>map_of [(''sound'', PyBool True), (''cursor_type'', PyInt 5)] ''sound'' = Some (PyBool True)
   \<and> map_of [(''sound'', PyBool True), (''cursor_type'', PyInt 5)] ''cursor_type'' = Some (PyInt 5)
   \<and> apply_settings (qt5 False (alive_for 0) [])
       (map_of [(''sound'', PyBool True), (''cursor_type'', PyInt 5)])
       \<lparr>font = PyNone, initial_path = PyStr ''~'', trace = [], pending = [], clock = 0\<rparr> =
     (Inl (KeyError (PyInt 5)),
      \<lparr>font = PyNone, initial_path = PyStr ''~'',
       trace = [EvaluateJavaScript ''spyder_terminal.default.setOption("bellStyle", "sound")''],
       pending = [], clock = 0\<rparr>)\<close>
  by (simp add: apply_settings_def cursor_choices_def set_option_call setOption_call_def
        js_call_def qt5_sel)

end
